theory Spec2Isabelle
  imports Main "HOL-Library.Sublist"
begin

section \<open>The wire data of the generative-model endpoint\<close>

text \<open>
  A response of the endpoint carries a stop reason and an ordered list of content blocks.
  A block is a text block (with a \<open>text\<close> field) or a tool-invocation request (with an
  \<open>id\<close>, a \<open>name\<close> and an \<open>input\<close> dictionary, kept as an association list).
\<close>

datatype content_block =
    TextBlock (block_text: string)
  | ToolUseBlock (block_id: string) (block_name: string) (block_input: "(string \<times> string) list")

fun block_type :: "content_block \<Rightarrow> string" where
  "block_type (TextBlock t) = ''text''"
| "block_type (ToolUseBlock i n inp) = ''tool_use''"

record response =
  stop_reason :: string
  content :: "content_block list"

text \<open>
  The dictionary \<open>{"type": "tool_result", "tool_use_id": ..., "content": ...}\<close> built for
  every dispatched request.
\<close>

datatype tool_result = ToolResult (tool_use_id: string) (result_content: string)

text \<open>
  A message of the buffer: a role and a content, which is the plain query text, the content
  blocks of an assistant response, or a list of tool results.
\<close>

datatype message_content =
    Plain string
  | Blocks "content_block list"
  | Results "tool_result list"

datatype message = Message (role: string) (message_content: message_content)

text \<open>A tool schema is a dictionary that the orchestrator passes through unread.\<close>

type_synonym tool_def = "(string \<times> string) list"

text \<open>
  The keyword arguments of \<open>client.messages.create\<close>. The keys \<open>tools\<close> and
  \<open>tool_choice\<close> may be absent: \<open>None\<close>.
\<close>

record request =
  model :: string
  temperature :: int
  max_tokens :: nat
  messages :: "message list"
  system :: string
  tools :: "tool_def list option"
  tool_choice :: "string option"

section \<open>Errors and the effects of the collaborators\<close>

text \<open>
  What can end \<open>generate_response\<close> without an answer: an exception of the endpoint call,
  which the code does not catch, \<open>content[0]\<close> on an empty content list, and \<open>.text\<close> on a
  block that has no such field.
\<close>

datatype error = APIError string | IndexError | AttributeError

text \<open>
  The outcome of \<open>tool_manager.execute_tool\<close>: the text it returns, or an exception
  (a subclass of \<open>Exception\<close>, which is what the \<open>except\<close> clause of the dispatch loop
  catches) with its message \<open>str(e)\<close>.
\<close>

datatype outcome = Returned string | Raised string

record tool_call =
  called_name :: string
  called_input :: "(string \<times> string) list"
  call_outcome :: outcome

text \<open>
  The endpoint and the tools are external and stateful. Their state is a value of an
  arbitrary type \<open>'w\<close> that every call receives and returns. Around it the model keeps a
  transcript: the requests sent to the endpoint, the responses it returned, and the tool
  invocations with their outcomes, each in order.
\<close>

record 'w world =
  ext :: 'w
  api_calls :: "request list"
  api_responses :: "response list"
  tool_calls :: "tool_call list"

type_synonym 'w tool_manager = "'w \<Rightarrow> string \<Rightarrow> (string \<times> string) list \<Rightarrow> outcome \<times> 'w"

text \<open>
  The generator object: its client (\<open>Inl\<close> is the message of a raised exception), its model
  name and the fixed prompt text of the class.
\<close>

record 'w ai_generator =
  client :: "'w \<Rightarrow> request \<Rightarrow> (string + response) \<times> 'w"
  ai_model :: string
  SYSTEM_PROMPT :: string

definition base_params :: "'w ai_generator \<Rightarrow> request" where
  "base_params self =
     \<lparr>model = ai_model self, temperature = 0, max_tokens = 800,
      messages = [], system = [], tools = None, tool_choice = None\<rparr>"

definition messages_create ::
  "'w ai_generator \<Rightarrow> request \<Rightarrow> 'w world \<Rightarrow> (string + response) \<times> 'w world" where
  "messages_create self params s =
     (case client self (ext s) params of
        (Inl e, w) \<Rightarrow> (Inl e, s\<lparr>ext := w, api_calls := api_calls s @ [params]\<rparr>)
      | (Inr r, w) \<Rightarrow>
          (Inr r, s\<lparr>ext := w, api_calls := api_calls s @ [params],
                    api_responses := api_responses s @ [r]\<rparr>))"

definition execute_tool ::
  "'w tool_manager \<Rightarrow> string \<Rightarrow> (string \<times> string) list \<Rightarrow> 'w world \<Rightarrow> outcome \<times> 'w world" where
  "execute_tool tool_manager nm inp s =
     (case tool_manager (ext s) nm inp of
        (out, w) \<Rightarrow>
          (out, s\<lparr>ext := w,
                  tool_calls := tool_calls s @
                    [\<lparr>called_name = nm, called_input = inp, call_outcome = out\<rparr>]\<rparr>))"

section \<open>The orchestrator\<close>

text \<open>\<open>response.content[0].text\<close>, with both ways it can fail.\<close>

definition first_text :: "response \<Rightarrow> error + string" where
  "first_text r =
     (case content r of
        [] \<Rightarrow> Inl IndexError
      | TextBlock t # bs \<Rightarrow> Inr t
      | ToolUseBlock i n inp # bs \<Rightarrow> Inl AttributeError)"

text \<open>The text that replaces the exception of a tool.\<close>

fun result_text :: "outcome \<Rightarrow> string" where
  "result_text (Returned t) = t"
| "result_text (Raised e) = ''Tool execution error: '' @ e"

text \<open>
  The \<open>for\<close> loop of \<open>_execute_single_round\<close> over the content blocks of a response, with
  the list \<open>tool_results\<close> it appends to.
\<close>

fun dispatch_blocks ::
  "'w tool_manager \<Rightarrow> content_block list \<Rightarrow> tool_result list \<Rightarrow> 'w world \<Rightarrow>
   tool_result list \<times> 'w world" where
  "dispatch_blocks tool_manager [] tool_results s = (tool_results, s)"
| "dispatch_blocks tool_manager (content_block # rest) tool_results s =
     (if block_type content_block = ''tool_use'' then
        (case execute_tool tool_manager (block_name content_block) (block_input content_block) s of
           (out, s1) \<Rightarrow>
             dispatch_blocks tool_manager rest
               (tool_results @ [ToolResult (block_id content_block) (result_text out)]) s1)
      else dispatch_blocks tool_manager rest tool_results s)"

text \<open>
  \<open>_execute_single_round\<close>: the assistant message, the dispatch of every request, the user
  message of the results when there is one, and the next call of the endpoint, with the
  tools and the automatic tool choice.
\<close>

definition execute_single_round ::
  "'w ai_generator \<Rightarrow> message list \<Rightarrow> string \<Rightarrow> tool_def list \<Rightarrow> 'w tool_manager \<Rightarrow>
   response \<Rightarrow> 'w world \<Rightarrow> (error + message list \<times> response) \<times> 'w world" where
  "execute_single_round self msgs system_content tls tool_manager resp s =
     (let msgs1 = msgs @ [Message ''assistant'' (Blocks (content resp))] in
      case dispatch_blocks tool_manager (content resp) [] s of
        (tool_results, s1) \<Rightarrow>
          (let msgs2 = (if tool_results \<noteq> [] then msgs1 @ [Message ''user'' (Results tool_results)]
                        else msgs1);
               next_params = (base_params self)
                 \<lparr>messages := msgs2, system := system_content,
                  tools := Some tls, tool_choice := Some ''auto''\<rparr>
           in case messages_create self next_params s1 of
                (Inl e, s2) \<Rightarrow> (Inl (APIError e), s2)
              | (Inr next_response, s2) \<Rightarrow> (Inr (msgs2, next_response), s2)))"

text \<open>
  The \<open>while\<close> loop of \<open>_execute_rounds\<close>, with its variables \<open>messages\<close>,
  \<open>current_response\<close> and \<open>rounds_completed\<close>, and the return of the text after it.
\<close>

function execute_rounds_loop ::
  "'w ai_generator \<Rightarrow> string \<Rightarrow> tool_def list \<Rightarrow> 'w tool_manager \<Rightarrow> int \<Rightarrow>
   message list \<Rightarrow> response \<Rightarrow> int \<Rightarrow> 'w world \<Rightarrow> (error + string) \<times> 'w world" where
  "execute_rounds_loop self system_content tls tool_manager max_rounds msgs current_response
       rounds_completed s =
     (if stop_reason current_response = ''tool_use'' \<and> rounds_completed < max_rounds then
        (case execute_single_round self msgs system_content tls tool_manager current_response s of
           (Inl e, s1) \<Rightarrow> (Inl e, s1)
         | (Inr (msgs1, next_response), s1) \<Rightarrow>
             execute_rounds_loop self system_content tls tool_manager max_rounds msgs1
               next_response (rounds_completed + 1) s1)
      else (first_text current_response, s))"
  by pat_completeness auto
termination
  by (relation "measure (\<lambda>(self, system_content, tls, tool_manager, max_rounds, msgs,
        current_response, rounds_completed, s). nat (max_rounds - rounds_completed))") auto

declare execute_rounds_loop.simps [simp del]

definition execute_rounds ::
  "'w ai_generator \<Rightarrow> response \<Rightarrow> request \<Rightarrow> 'w tool_manager \<Rightarrow> int \<Rightarrow> 'w world \<Rightarrow>
   (error + string) \<times> 'w world" where
  "execute_rounds self initial_response params tool_manager max_rounds s =
     execute_rounds_loop self (system params)
       (case tools params of None \<Rightarrow> [] | Some tls \<Rightarrow> tls)
       tool_manager max_rounds (messages params) initial_response 0 s"

text \<open>Python's truth value of an optional string and of an optional list.\<close>

fun truthy :: "'a list option \<Rightarrow> bool" where
  "truthy None = False"
| "truthy (Some xs) = (xs \<noteq> [])"

definition rounds_limit :: "int option \<Rightarrow> int" where
  "rounds_limit max_rounds = (case max_rounds of None \<Rightarrow> 2 | Some n \<Rightarrow> n)"

definition system_content_of :: "'w ai_generator \<Rightarrow> string option \<Rightarrow> string" where
  "system_content_of self conversation_history =
     (if truthy conversation_history then
        SYSTEM_PROMPT self @ [CHR 0x0A, CHR 0x0A] @ ''Previous conversation:'' @ [CHR 0x0A]
          @ the conversation_history
      else SYSTEM_PROMPT self)"

definition initial_params ::
  "'w ai_generator \<Rightarrow> string \<Rightarrow> string option \<Rightarrow> tool_def list option \<Rightarrow> request" where
  "initial_params self query conversation_history tls =
     (let api_params = (base_params self)
            \<lparr>messages := [Message ''user'' (Plain query)],
             system := system_content_of self conversation_history\<rparr>
      in if truthy tls then api_params\<lparr>tools := tls, tool_choice := Some ''auto''\<rparr>
         else api_params)"

definition generate_response ::
  "'w ai_generator \<Rightarrow> string \<Rightarrow> string option \<Rightarrow> tool_def list option \<Rightarrow>
   'w tool_manager option \<Rightarrow> int option \<Rightarrow> 'w world \<Rightarrow> (error + string) \<times> 'w world" where
  "generate_response self query conversation_history tls tool_manager max_rounds s =
     (let api_params = initial_params self query conversation_history tls in
      case messages_create self api_params s of
        (Inl e, s1) \<Rightarrow> (Inl (APIError e), s1)
      | (Inr resp, s1) \<Rightarrow>
          (case tool_manager of
             Some tm \<Rightarrow>
               if stop_reason resp = ''tool_use'' then
                 execute_rounds self resp api_params tm (rounds_limit max_rounds) s1
               else (first_text resp, s1)
           | None \<Rightarrow> (first_text resp, s1)))"

section \<open>Observations on a run\<close>

text \<open>
  The definitions of this section are not code of the program: they name what the
  theorems observe. \<open>requests\<close> selects the tool-invocation requests of a content list,
  \<open>fresh\<close> is a world with an empty transcript, \<open>api_failed\<close> says that a run ended with
  the exception of an endpoint call, \<open>round_results\<close> pairs the requests of a response
  with the invocations made for them, and \<open>round_messages\<close> and \<open>round_request\<close> are the
  buffer after a round and the request sent with it.
\<close>

definition requests :: "content_block list \<Rightarrow> content_block list" where
  "requests bs = filter (\<lambda>b. block_type b = ''tool_use'') bs"

definition fresh :: "'w \<Rightarrow> 'w world" where
  "fresh w = \<lparr>ext = w, api_calls = [], api_responses = [], tool_calls = []\<rparr>"

fun api_failed :: "error + 'a \<Rightarrow> bool" where
  "api_failed (Inl (APIError e)) = True"
| "api_failed (Inl IndexError) = False"
| "api_failed (Inl AttributeError) = False"
| "api_failed (Inr x) = False"

definition round_results :: "content_block list \<Rightarrow> tool_call list \<Rightarrow> tool_result list" where
  "round_results bs cs =
     map2 (\<lambda>b c. ToolResult (block_id b) (result_text (call_outcome c))) (requests bs) cs"

definition round_messages :: "message list \<Rightarrow> content_block list \<Rightarrow> tool_result list \<Rightarrow> message list" where
  "round_messages msgs bs results =
     msgs @ Message ''assistant'' (Blocks bs) #
       (if results = [] then [] else [Message ''user'' (Results results)])"

definition round_request ::
  "'w ai_generator \<Rightarrow> message list \<Rightarrow> string \<Rightarrow> tool_def list \<Rightarrow> request" where
  "round_request self msgs system_content tls =
     (base_params self)\<lparr>messages := msgs, system := system_content,
        tools := Some tls, tool_choice := Some ''auto''\<rparr>"


section \<open>Collaborators of the example runs\<close>

text \<open>
  A scripted endpoint, which returns the responses of a list one by one and raises when
  the list is used up, and two tool managers: one that always returns, and one whose
  content search raises.
\<close>

definition scripted_client ::
  "response list \<Rightarrow> request \<Rightarrow> (string + response) \<times> response list" where
  "scripted_client script params =
     (case script of
        [] \<Rightarrow> (Inl ''StopIteration'', [])
      | r # rs \<Rightarrow> (Inr r, rs))"

definition mock_generator :: "response list ai_generator" where
  "mock_generator =
     \<lparr>client = scripted_client, ai_model = ''claude-sonnet-4-20250514'',
      SYSTEM_PROMPT = ''You are an AI assistant''\<rparr>"

definition mock_tool_manager :: "response list tool_manager" where
  "mock_tool_manager w nm inp = (Returned ''Tool result'', w)"

definition failing_tool_manager :: "response list tool_manager" where
  "failing_tool_manager w nm inp =
     (if nm = ''search_course_content'' then (Raised ''Search service unavailable'', w)
      else (Returned ''Course outline: Lesson 1, 2, 3'', w))"

definition search_tools :: "tool_def list" where
  "search_tools = [[(''name'', ''search_course_content'')]]"

definition outline_request :: content_block where
  "outline_request = ToolUseBlock ''t1'' ''get_course_outline'' [(''course_title'', ''MCP'')]"

definition search_request :: content_block where
  "search_request = ToolUseBlock ''t2'' ''search_course_content'' [(''query'', ''advanced'')]"

definition tool_use_response :: response where
  "tool_use_response = \<lparr>stop_reason = ''tool_use'', content = [search_request]\<rparr>"

definition final_response :: response where
  "final_response =
     \<lparr>stop_reason = ''end_turn'', content = [TextBlock ''Maximum tool rounds reached'']\<rparr>"

definition searching_response :: response where
  "searching_response =
     \<lparr>stop_reason = ''tool_use'',
      content = [TextBlock ''Let me search the course.'', search_request]\<rparr>"

definition two_tool_response :: response where
  "two_tool_response =
     \<lparr>stop_reason = ''tool_use'', content = [search_request, outline_request]\<rparr>"

section \<open>The content-search tool\<close>

text \<open>
  The source of the search tools is not among the files of the repository at hand: only
  their tests are. The definitions of this section follow the specification, and the
  tests where the specification leaves a choice open.
\<close>

text \<open>
  Modelled from the spec: the retrieval collaborator, which is missing. A search returns
  the matched passages, each with its course title and lesson number, and an optional
  error message; a lesson has a link or none.
\<close>

record passage =
  passage_text :: string
  course_title :: string
  lesson_number :: nat

record search_results =
  passages :: "passage list"
  search_error :: "string option"

record retrieval =
  search :: "string \<Rightarrow> string option \<Rightarrow> nat option \<Rightarrow> search_results"
  lesson_link :: "string \<Rightarrow> nat \<Rightarrow> string option"

text \<open>
  Modelled from the spec: the citation, which is missing. It is a display label and an
  optional link.
\<close>

record citation =
  label :: string
  link :: "string option"

text \<open>The decimal digits of a number, as the formatting of a lesson number writes them.\<close>

fun str_nat :: "nat \<Rightarrow> string" where
  "str_nat n =
     (if n < 10 then [''0123456789'' ! n]
      else str_nat (n div 10) @ [''0123456789'' ! (n mod 10)])"

declare str_nat.simps [simp del]

text \<open>
  Modelled from the spec: the label \<open><course> - Lesson <n>\<close> of a passage and the
  formatted passage \<open>[<course> - Lesson <n>] <passage text>\<close>, which are missing.
\<close>

definition passage_label :: "passage \<Rightarrow> string" where
  "passage_label p = course_title p @ '' - Lesson '' @ str_nat (lesson_number p)"

definition format_passage :: "passage \<Rightarrow> string" where
  "format_passage p = ''['' @ passage_label p @ ''] '' @ passage_text p"

definition passage_citation :: "retrieval \<Rightarrow> passage \<Rightarrow> citation" where
  "passage_citation store p =
     \<lparr>label = passage_label p, link = lesson_link store (course_title p) (lesson_number p)\<rparr>"

text \<open>Python's \<open>sep.join(parts)\<close>.\<close>

fun join_with :: "string \<Rightarrow> string list \<Rightarrow> string" where
  "join_with sep [] = []"
| "join_with sep [x] = x"
| "join_with sep (x # y # ys) = x @ sep @ join_with sep (y # ys)"

text \<open>
  Modelled from the spec: \<open>execute\<close> of the content-search tool, which is missing. It
  takes the citations the tool has accumulated and returns the result text with the
  citations after the call. A failure of the retrieval returns the failure's literal
  message; an empty result set returns the sentinel; otherwise every passage is formatted
  and cited. The test \<open>test_execute_with_search_error\<close> fixes that the message is
  returned as it is, and that a failure is looked at before emptiness; the test
  \<open>test_execute_with_empty_results_zero_max_results\<close> fixes that an empty error text is
  no failure, and the wording of the sentinel. The specification does not say what joins
  the formatted passages: the separator is a parameter.
\<close>

definition content_search_execute ::
  "retrieval \<Rightarrow> string \<Rightarrow> string \<Rightarrow> string option \<Rightarrow> nat option \<Rightarrow> citation list \<Rightarrow>
   string \<times> citation list" where
  "content_search_execute store sep query course_name lesson cites =
     (let results = search store query course_name lesson in
      if truthy (search_error results) then (the (search_error results), cites)
      else if passages results = [] then (''No relevant content found'', cites)
      else (join_with sep (map format_passage (passages results)),
            cites @ map (passage_citation store) (passages results)))"

text \<open>
  Retrieval collaborators of the example runs: one that finds two passages of two
  courses, one that reports a failure, and one that finds nothing.
\<close>

definition two_course_store :: retrieval where
  "two_course_store =
     \<lparr>search = (\<lambda>query course_name lesson.
        \<lparr>passages =
           [\<lparr>passage_text = ''Content 1'', course_title = ''Course A'', lesson_number = 1\<rparr>,
            \<lparr>passage_text = ''Content 2'', course_title = ''Course B'', lesson_number = 2\<rparr>],
         search_error = None\<rparr>),
      lesson_link = (\<lambda>course n.
        if n = 1 then Some ''https://example.com/lesson1''
        else Some ''https://example.com/lesson2'')\<rparr>"

definition failing_store :: retrieval where
  "failing_store =
     \<lparr>search = (\<lambda>query course_name lesson.
        \<lparr>passages = [], search_error = Some ''Database connection failed''\<rparr>),
      lesson_link = (\<lambda>course n. None)\<rparr>"

definition empty_store :: retrieval where
  "empty_store =
     \<lparr>search = (\<lambda>query course_name lesson. \<lparr>passages = [], search_error = Some []\<rparr>),
      lesson_link = (\<lambda>course n. None)\<rparr>"

lemmas example_defs =
  scripted_client_def mock_generator_def mock_tool_manager_def failing_tool_manager_def
  search_tools_def outline_request_def search_request_def tool_use_response_def
  final_response_def searching_response_def two_tool_response_def

lemmas run_defs =
  generate_response_def initial_params_def base_params_def messages_create_def
  execute_rounds_def execute_rounds_loop.simps execute_single_round_def execute_tool_def
  rounds_limit_def first_text_def system_content_of_def fresh_def Let_def

section \<open>The transcript of a round and of the loop\<close>

lemma messages_create_log:
  assumes "messages_create self p s = (out, s')"
  shows "api_calls s' = api_calls s @ [p]"
    and "tool_calls s' = tool_calls s"
    and "api_responses s' = api_responses s @ (case out of Inl e \<Rightarrow> [] | Inr r \<Rightarrow> [r])"
  using assms by (auto simp: messages_create_def split: prod.splits sum.splits)

lemma execute_tool_log:
  assumes "execute_tool tm nm inp s = (out, s')"
  shows "api_calls s' = api_calls s"
    and "api_responses s' = api_responses s"
    and "tool_calls s' = tool_calls s @ [\<lparr>called_name = nm, called_input = inp, call_outcome = out\<rparr>]"
  using assms by (auto simp: execute_tool_def split: prod.splits)

lemma requests_Cons:
  "requests (b # bs) = (if block_type b = ''tool_use'' then b # requests bs else requests bs)"
  by (simp add: requests_def)

lemma dispatch_blocks_log:
  "dispatch_blocks tm bs acc s = (res, s') \<Longrightarrow>
     api_calls s' = api_calls s \<and> api_responses s' = api_responses s \<and>
     (\<exists>new. tool_calls s' = tool_calls s @ new \<and>
        map called_name new = map block_name (requests bs) \<and>
        map called_input new = map block_input (requests bs) \<and>
        res = acc @ round_results bs new)"
proof (induction bs arbitrary: acc s)
  case Nil
  then show ?case by (simp add: requests_def round_results_def)
next
  case (Cons b bs)
  show ?case
  proof (cases "block_type b = ''tool_use''")
    case False
    with Cons.prems have "dispatch_blocks tm bs acc s = (res, s')" by simp
    from Cons.IH[OF this] False show ?thesis
      by (simp add: requests_Cons round_results_def)
  next
    case True
    obtain out s1 where ex: "execute_tool tm (block_name b) (block_input b) s = (out, s1)"
      by (cases "execute_tool tm (block_name b) (block_input b) s")
    with True Cons.prems
    have rec: "dispatch_blocks tm bs (acc @ [ToolResult (block_id b) (result_text out)]) s1 = (res, s')"
      by simp
    from Cons.IH[OF rec] obtain new where
      a: "api_calls s' = api_calls s1" "api_responses s' = api_responses s1" and
      n: "tool_calls s' = tool_calls s1 @ new"
         "map called_name new = map block_name (requests bs)"
         "map called_input new = map block_input (requests bs)"
         "res = (acc @ [ToolResult (block_id b) (result_text out)]) @ round_results bs new"
      by blast
    let ?c = "\<lparr>called_name = block_name b, called_input = block_input b, call_outcome = out\<rparr>"
    have "tool_calls s' = tool_calls s @ (?c # new)"
      using n(1) execute_tool_log(3)[OF ex] by simp
    moreover have "res = acc @ round_results (b # bs) (?c # new)"
      using n(4) True by (simp add: round_results_def requests_Cons)
    ultimately show ?thesis
      using a n(2,3) True execute_tool_log(1,2)[OF ex]
      by (intro conjI exI[of _ "?c # new"]) (simp_all add: requests_Cons)
  qed
qed

lemma execute_single_round_log:
  assumes "execute_single_round self msgs sys tls tm resp s = (out, s')"
  shows "\<exists>new. tool_calls s' = tool_calls s @ new \<and>
           map called_name new = map block_name (requests (content resp)) \<and>
           map called_input new = map block_input (requests (content resp)) \<and>
           api_calls s' = api_calls s @
             [round_request self (round_messages msgs (content resp) (round_results (content resp) new)) sys tls] \<and>
           (case out of
              Inl e \<Rightarrow> (\<exists>m. e = APIError m) \<and> api_responses s' = api_responses s
            | Inr (msgs1, nxt) \<Rightarrow>
                msgs1 = round_messages msgs (content resp) (round_results (content resp) new) \<and>
                api_responses s' = api_responses s @ [nxt])"
proof -
  obtain results s1 where d: "dispatch_blocks tm (content resp) [] s = (results, s1)"
    by (cases "dispatch_blocks tm (content resp) [] s")
  from dispatch_blocks_log[OF d] obtain new where
    a: "api_calls s1 = api_calls s" "api_responses s1 = api_responses s" and
    n: "tool_calls s1 = tool_calls s @ new"
       "map called_name new = map block_name (requests (content resp))"
       "map called_input new = map block_input (requests (content resp))"
       "results = round_results (content resp) new"
    by auto
  let ?req = "round_request self (round_messages msgs (content resp) results) sys tls"
  obtain r s2 where c: "messages_create self ?req s1 = (r, s2)"
    by (cases "messages_create self ?req s1")
  have "execute_single_round self msgs sys tls tm resp s =
          (case messages_create self ?req s1 of
             (Inl e, s2) \<Rightarrow> (Inl (APIError e), s2)
           | (Inr nxt, s2) \<Rightarrow> (Inr (round_messages msgs (content resp) results, nxt), s2))"
    by (auto simp: execute_single_round_def Let_def d round_request_def round_messages_def
             split: prod.splits sum.splits)
  with assms c
  have out: "out = (case r of Inl e \<Rightarrow> Inl (APIError e)
                    | Inr nxt \<Rightarrow> Inr (round_messages msgs (content resp) results, nxt))"
    and s': "s' = s2"
    by (auto split: sum.splits)
  show ?thesis
    using messages_create_log[OF c] a n out s'
    by (intro exI[of _ new]) (auto split: sum.splits)
qed


lemma round_results_ids:
  assumes "map called_name new = map block_name (requests bs)"
  shows "map tool_use_id (round_results bs new) = map block_id (requests bs)"
proof -
  have "length rq = length new \<Longrightarrow>
        map tool_use_id
          (map2 (\<lambda>b c. ToolResult (block_id b) (result_text (call_outcome c))) rq new) =
        map block_id rq" for rq :: "content_block list"
    by (induction rq new rule: list_induct2) auto
  moreover from assms have "length (requests bs) = length new"
    by (metis length_map)
  ultimately show ?thesis
    by (simp add: round_results_def)
qed

lemma first_text_not_api_failed: "\<not> api_failed (first_text r)"
  by (auto simp: first_text_def split: list.splits content_block.splits)

lemma execute_rounds_loop_trace:
  "execute_rounds_loop self sys tls tm R msgs cur rc s = (out, s') \<Longrightarrow>
   \<exists>cs rs tcs.
     api_calls s' = api_calls s @ cs \<and> api_responses s' = api_responses s @ rs \<and>
     tool_calls s' = tool_calls s @ tcs \<and>
     (\<forall>c\<in>set cs. tools c = Some tls \<and> tool_choice c = Some ''auto'') \<and>
     length cs \<le> nat (R - rc) \<and>
     (\<forall>r\<in>set (butlast (cur # rs)). stop_reason r = ''tool_use'') \<and>
     (api_failed out \<longrightarrow> length cs = Suc (length rs)) \<and>
     (\<not> api_failed out \<longrightarrow>
        length cs = length rs \<and> out = first_text (last (cur # rs)) \<and>
        (length rs < nat (R - rc) \<longrightarrow> stop_reason (last (cur # rs)) \<noteq> ''tool_use'')) \<and>
     (\<forall>i<length cs. \<exists>results.
        map tool_use_id results = map block_id (requests (content ((cur # rs) ! i))) \<and>
        messages (cs ! i) =
          round_messages ((msgs # map messages cs) ! i) (content ((cur # rs) ! i)) results)"
proof (induction self sys tls tm R msgs cur rc s arbitrary: out s'
        rule: execute_rounds_loop.induct)
  case (1 self sys tls tm R msgs cur rc s)
  let ?go = "stop_reason cur = ''tool_use'' \<and> rc < R"
  show ?case
  proof (cases ?go)
    case False
    with "1.prems" have "out = first_text cur" "s' = s"
      by (auto simp: execute_rounds_loop.simps)
    with False show ?thesis
      by (intro exI[of _ "[]"]) (auto simp: first_text_not_api_failed)
  next
    case True
    obtain o1 s1 where r: "execute_single_round self msgs sys tls tm cur s = (o1, s1)"
      by (cases "execute_single_round self msgs sys tls tm cur s")
    from execute_single_round_log[OF r] obtain new where
      tc: "tool_calls s1 = tool_calls s @ new" and
      nm: "map called_name new = map block_name (requests (content cur))" and
      ac: "api_calls s1 = api_calls s @
             [round_request self (round_messages msgs (content cur) (round_results (content cur) new)) sys tls]" and
      oc: "case o1 of
              Inl e \<Rightarrow> (\<exists>m. e = APIError m) \<and> api_responses s1 = api_responses s
            | Inr (msgs1, nxt) \<Rightarrow>
                msgs1 = round_messages msgs (content cur) (round_results (content cur) new) \<and>
                api_responses s1 = api_responses s @ [nxt]"
      by blast
    let ?res = "round_results (content cur) new"
    let ?req = "round_request self (round_messages msgs (content cur) ?res) sys tls"
    have req: "tools ?req = Some tls" "tool_choice ?req = Some ''auto''"
              "messages ?req = round_messages msgs (content cur) ?res"
      by (simp_all add: round_request_def)
    have ids: "map tool_use_id ?res = map block_id (requests (content cur))"
      by (rule round_results_ids[OF nm])
    show ?thesis
    proof (cases o1)
      case (Inl e)
      with "1.prems" True r have o: "out = Inl e" "s' = s1"
        by (auto simp: execute_rounds_loop.simps)
      from oc Inl have f: "api_failed out" "api_responses s1 = api_responses s"
        using o by auto
      show ?thesis
        apply (rule exI[of _ "[?req]"], rule exI[of _ "[]"], rule exI[of _ new])
        using True o f tc ac req ids by auto
    next
      case (Inr p)
      obtain msgs1 nxt where p: "p = (msgs1, nxt)" by (cases p)
      from "1.prems" True r Inr p
      have rec: "execute_rounds_loop self sys tls tm R msgs1 nxt (rc + 1) s1 = (out, s')"
        by (auto simp: execute_rounds_loop.simps)
      from oc Inr p have m1: "msgs1 = round_messages msgs (content cur) ?res"
        and ar: "api_responses s1 = api_responses s @ [nxt]"
        by auto
      from "1.IH"[OF True r[symmetric] Inr p[symmetric] rec]
      obtain cs rs tcs where
        h1: "api_calls s' = api_calls s1 @ cs" "api_responses s' = api_responses s1 @ rs"
            "tool_calls s' = tool_calls s1 @ tcs" and
        h2: "\<forall>c\<in>set cs. tools c = Some tls \<and> tool_choice c = Some ''auto''" and
        h3: "length cs \<le> nat (R - (rc + 1))" and
        h4: "\<forall>r\<in>set (butlast (nxt # rs)). stop_reason r = ''tool_use''" and
        h5: "api_failed out \<longrightarrow> length cs = Suc (length rs)" and
        h6: "\<not> api_failed out \<longrightarrow>
               length cs = length rs \<and> out = first_text (last (nxt # rs)) \<and>
               (length rs < nat (R - (rc + 1)) \<longrightarrow> stop_reason (last (nxt # rs)) \<noteq> ''tool_use'')" and
        h7: "\<forall>i<length cs. \<exists>results.
               map tool_use_id results = map block_id (requests (content ((nxt # rs) ! i))) \<and>
               messages (cs ! i) =
                 round_messages ((msgs1 # map messages cs) ! i) (content ((nxt # rs) ! i)) results"
        by blast
      have g1: "api_calls s' = api_calls s @ (?req # cs)"
               "api_responses s' = api_responses s @ (nxt # rs)"
               "tool_calls s' = tool_calls s @ (new @ tcs)"
        using h1 ac ar tc by simp_all
      have g2: "\<forall>c\<in>set (?req # cs). tools c = Some tls \<and> tool_choice c = Some ''auto''"
        using h2 req by simp
      have g3: "length (?req # cs) \<le> nat (R - rc)"
      proof -
        from True have "nat (R - rc) = Suc (nat (R - (rc + 1)))" by linarith
        with h3 show ?thesis by simp
      qed
      have g4: "\<forall>r\<in>set (butlast (cur # nxt # rs)). stop_reason r = ''tool_use''"
        using h4 True by simp
      have g5: "api_failed out \<longrightarrow> length (?req # cs) = Suc (length (nxt # rs))"
        using h5 by simp
      have g6: "\<not> api_failed out \<longrightarrow>
               length (?req # cs) = length (nxt # rs) \<and>
               out = first_text (last (cur # nxt # rs)) \<and>
               (length (nxt # rs) < nat (R - rc) \<longrightarrow>
                  stop_reason (last (cur # nxt # rs)) \<noteq> ''tool_use'')"
      proof -
        from True have "nat (R - rc) = Suc (nat (R - (rc + 1)))" by linarith
        with h6 show ?thesis by auto
      qed
      have g7: "\<forall>i<length (?req # cs). \<exists>results.
               map tool_use_id results =
                 map block_id (requests (content ((cur # nxt # rs) ! i))) \<and>
               messages ((?req # cs) ! i) =
                 round_messages ((msgs # map messages (?req # cs)) ! i)
                   (content ((cur # nxt # rs) ! i)) results"
      proof (intro allI impI)
        fix i assume i: "i < length (?req # cs)"
        show "\<exists>results.
               map tool_use_id results =
                 map block_id (requests (content ((cur # nxt # rs) ! i))) \<and>
               messages ((?req # cs) ! i) =
                 round_messages ((msgs # map messages (?req # cs)) ! i)
                   (content ((cur # nxt # rs) ! i)) results"
        proof (cases i)
          case 0
          then show ?thesis using ids req(3) by auto
        next
          case (Suc j)
          with i have "j < length cs" by simp
          with h7 obtain results where
            "map tool_use_id results = map block_id (requests (content ((nxt # rs) ! j)))"
            "messages (cs ! j) =
               round_messages ((msgs1 # map messages cs) ! j) (content ((nxt # rs) ! j)) results"
            by blast
          then show ?thesis using Suc m1 req(3) by auto
        qed
      qed
      show ?thesis
        apply (rule exI[of _ "?req # cs"], rule exI[of _ "nxt # rs"], rule exI[of _ "new @ tcs"])
        using g1 g2 g3 g4 g5 g6 g7 by blast
    qed
  qed
qed

text \<open>The transcript of a whole query: the first call, then the loop.\<close>

lemma generate_response_trace:
  assumes run: "generate_response self query hist tls tmo mr s = (out, s')"
  shows "\<exists>cs rs tcs.
     api_calls s' = api_calls s @ initial_params self query hist tls # cs \<and>
     api_responses s' = api_responses s @ rs \<and>
     tool_calls s' = tool_calls s @ tcs \<and>
     (\<forall>c\<in>set cs. tools c = Some (case tls of None \<Rightarrow> [] | Some ts \<Rightarrow> ts) \<and>
                  tool_choice c = Some ''auto'') \<and>
     length cs \<le> nat (rounds_limit mr) \<and>
     (tmo = None \<longrightarrow> cs = [] \<and> tcs = []) \<and>
     (\<forall>r\<in>set (butlast rs). stop_reason r = ''tool_use'') \<and>
     (api_failed out \<longrightarrow> length cs = length rs) \<and>
     (\<not> api_failed out \<longrightarrow>
        Suc (length cs) = length rs \<and> out = first_text (last rs) \<and>
        (tmo \<noteq> None \<and> length cs < nat (rounds_limit mr) \<longrightarrow>
           stop_reason (last rs) \<noteq> ''tool_use'')) \<and>
     (\<forall>i<length cs. \<exists>results.
        map tool_use_id results = map block_id (requests (content (rs ! i))) \<and>
        messages (cs ! i) =
          round_messages (messages ((initial_params self query hist tls # cs) ! i))
            (content (rs ! i)) results)"
proof -
  let ?p = "initial_params self query hist tls"
  let ?tls = "case tls of None \<Rightarrow> [] | Some ts \<Rightarrow> ts"
  obtain o1 s1 where c: "messages_create self ?p s = (o1, s1)"
    by (cases "messages_create self ?p s")
  note log = messages_create_log[OF c]
  have tl: "(case tools ?p of None \<Rightarrow> [] | Some ts \<Rightarrow> ts) = ?tls"
    by (cases tls) (auto simp: initial_params_def base_params_def Let_def)
  show ?thesis
  proof (cases o1)
    case (Inl e)
    with run c have "out = Inl (APIError e)" "s' = s1"
      by (auto simp: generate_response_def Let_def)
    then have o: "out = Inl (APIError e)" "s' = s1" by simp_all
    show ?thesis
      apply (rule exI[of _ "[]"], rule exI[of _ "[]"], rule exI[of _ "[]"])
      using o log Inl by auto
  next
    case (Inr r)
    show ?thesis
    proof (cases "tmo \<noteq> None \<and> stop_reason r = ''tool_use''")
      case False
      with run c Inr have "out = first_text r" "s' = s1"
        by (auto simp: generate_response_def Let_def split: option.splits)
      then have o: "out = first_text r" "s' = s1" by simp_all
      show ?thesis
        apply (rule exI[of _ "[]"], rule exI[of _ "[r]"], rule exI[of _ "[]"])
        using o log Inr False by (auto simp: first_text_not_api_failed)
    next
      case True
      then obtain tm where tm: "tmo = Some tm" by auto
      with run c Inr True
      have "execute_rounds_loop self (system ?p) ?tls tm (rounds_limit mr) (messages ?p) r 0 s1
              = (out, s')"
        by (auto simp: generate_response_def execute_rounds_def Let_def tl)
      from execute_rounds_loop_trace[OF this] obtain cs rs tcs where
        h: "api_calls s' = api_calls s1 @ cs" "api_responses s' = api_responses s1 @ rs"
           "tool_calls s' = tool_calls s1 @ tcs"
           "\<forall>c\<in>set cs. tools c = Some ?tls \<and> tool_choice c = Some ''auto''"
           "length cs \<le> nat (rounds_limit mr - 0)"
           "\<forall>r\<in>set (butlast (r # rs)). stop_reason r = ''tool_use''"
           "api_failed out \<longrightarrow> length cs = Suc (length rs)"
           "\<not> api_failed out \<longrightarrow>
              length cs = length rs \<and> out = first_text (last (r # rs)) \<and>
              (length rs < nat (rounds_limit mr - 0) \<longrightarrow>
                 stop_reason (last (r # rs)) \<noteq> ''tool_use'')"
           "\<forall>i<length cs. \<exists>results.
              map tool_use_id results = map block_id (requests (content ((r # rs) ! i))) \<and>
              messages (cs ! i) =
                round_messages ((messages ?p # map messages cs) ! i)
                  (content ((r # rs) ! i)) results"
        by blast
      have nth: "(messages ?p # map messages cs) ! i = messages ((?p # cs) ! i)"
        if "i < length cs" for i
        using that by (cases i) auto
      show ?thesis
        apply (rule exI[of _ cs], rule exI[of _ "r # rs"], rule exI[of _ tcs])
        using h log Inr tm nth by auto
    qed
  qed
qed

section \<open>Runs of a single call\<close>

lemma first_text_TextBlock: "content r = TextBlock t # bs \<Longrightarrow> first_text r = Inr t"
  by (simp add: first_text_def)

lemma messages_create_fresh:
  assumes "client self w p = (Inr r, w')"
  shows "messages_create self p (fresh w) =
           (Inr r, \<lparr>ext = w', api_calls = [p], api_responses = [r], tool_calls = []\<rparr>)"
  using assms by (simp add: messages_create_def fresh_def)

text \<open>
  C8, as the code has it: with \<open>max_rounds = 0\<close>, a tool manager and a first response
  that requests tools, the loop runs no iteration: the endpoint is called once, no tool
  is invoked and no second, tool-less call is made. The result is the extraction
  \<open>content[0].text\<close> on that tool-requesting response, and the answer is the text of its
  first block when that block is a text block.
\<close>

theorem zero_rounds_returns_first_response:
  assumes "client self w (initial_params self query hist tls) = (Inr r, w')"
      and "stop_reason r = ''tool_use''"
  shows "generate_response self query hist tls (Some tm) (Some 0) (fresh w) =
           (first_text r,
            \<lparr>ext = w', api_calls = [initial_params self query hist tls],
             api_responses = [r], tool_calls = []\<rparr>) \<and>
         (\<forall>t bs. content r = TextBlock t # bs \<longrightarrow>
            generate_response self query hist tls (Some tm) (Some 0) (fresh w) =
              (Inr t,
               \<lparr>ext = w', api_calls = [initial_params self query hist tls],
                api_responses = [r], tool_calls = []\<rparr>))"
  using assms messages_create_fresh[OF assms(1)]
  by (simp add: generate_response_def Let_def execute_rounds_def rounds_limit_def
        execute_rounds_loop.simps first_text_TextBlock)

theorem zero_rounds_returns_first_response_witness:
  "generate_response mock_generator ''What is MCP?'' None (Some search_tools)
     (Some mock_tool_manager) (Some 0) (fresh [searching_response, final_response]) =
   (Inr ''Let me search the course.'',
    \<lparr>ext = [final_response],
     api_calls = [initial_params mock_generator ''What is MCP?'' None (Some search_tools)],
     api_responses = [searching_response], tool_calls = []\<rparr>)"
proof -
  have c: "client mock_generator [searching_response, final_response]
             (initial_params mock_generator ''What is MCP?'' None (Some search_tools)) =
           (Inr searching_response, [final_response])"
    by (simp add: mock_generator_def scripted_client_def)
  have s: "stop_reason searching_response = ''tool_use''"
    by (simp add: searching_response_def)
  have t: "content searching_response = [TextBlock ''Let me search the course.'', search_request]"
    by (simp add: searching_response_def)
  from zero_rounds_returns_first_response[OF c s, of mock_tool_manager, THEN conjunct2] t
  show ?thesis by blast
qed

text \<open>
  C8, as stated, fails on a tool-requesting response whose first block is the request
  itself: with \<open>max_rounds = 0\<close> the one call is made and no tool is invoked, but no text
  is returned; the extraction ends with the attribute error.
\<close>

theorem zero_rounds_request_first_counterexample:
  "stop_reason tool_use_response = ''tool_use'' \<and>
   generate_response mock_generator ''What is MCP?'' None (Some search_tools)
     (Some mock_tool_manager) (Some 0) (fresh [tool_use_response, final_response]) =
   (Inl AttributeError,
    \<lparr>ext = [final_response],
     api_calls = [initial_params mock_generator ''What is MCP?'' None (Some search_tools)],
     api_responses = [tool_use_response], tool_calls = []\<rparr>)"
  by (simp add: run_defs example_defs)

text \<open>
  C9, as the code has it: with tools offered, no tool manager, and a response that
  requests tools, the endpoint is called once, with the tools, and no tool is invoked.
  The result is the extraction \<open>content[0].text\<close> on that response, and the answer is
  the text of its first block when that block is a text block.
\<close>

theorem no_tool_manager_single_call:
  assumes "truthy tls"
      and "client self w (initial_params self query hist tls) = (Inr r, w')"
      and "stop_reason r = ''tool_use''"
  shows "generate_response self query hist tls None max_rounds (fresh w) =
           (first_text r,
            \<lparr>ext = w', api_calls = [initial_params self query hist tls],
             api_responses = [r], tool_calls = []\<rparr>) \<and>
         tools (initial_params self query hist tls) = tls \<and>
         (\<forall>t bs. content r = TextBlock t # bs \<longrightarrow>
            generate_response self query hist tls None max_rounds (fresh w) =
              (Inr t,
               \<lparr>ext = w', api_calls = [initial_params self query hist tls],
                api_responses = [r], tool_calls = []\<rparr>))"
  using assms messages_create_fresh[OF assms(2)]
  by (simp add: generate_response_def Let_def first_text_TextBlock initial_params_def)

theorem no_tool_manager_single_call_witness:
  "generate_response mock_generator ''What is MCP?'' None (Some search_tools)
     None None (fresh [searching_response, final_response]) =
   (Inr ''Let me search the course.'',
    \<lparr>ext = [final_response],
     api_calls = [initial_params mock_generator ''What is MCP?'' None (Some search_tools)],
     api_responses = [searching_response], tool_calls = []\<rparr>) \<and>
   tools (initial_params mock_generator ''What is MCP?'' None (Some search_tools)) =
     Some search_tools"
proof -
  have c: "client mock_generator [searching_response, final_response]
             (initial_params mock_generator ''What is MCP?'' None (Some search_tools)) =
           (Inr searching_response, [final_response])"
    by (simp add: mock_generator_def scripted_client_def)
  have s: "stop_reason searching_response = ''tool_use''"
    by (simp add: searching_response_def)
  have t: "content searching_response = [TextBlock ''Let me search the course.'', search_request]"
    by (simp add: searching_response_def)
  have u: "truthy (Some search_tools)"
    by (simp add: search_tools_def)
  note th = no_tool_manager_single_call[OF u c s, of None]
  from th[THEN conjunct2, THEN conjunct2] t
  have "generate_response mock_generator ''What is MCP?'' None (Some search_tools)
          None None (fresh [searching_response, final_response]) =
        (Inr ''Let me search the course.'',
         \<lparr>ext = [final_response],
          api_calls = [initial_params mock_generator ''What is MCP?'' None (Some search_tools)],
          api_responses = [searching_response], tool_calls = []\<rparr>)"
    by blast
  then show ?thesis using th[THEN conjunct2, THEN conjunct1] by (rule conjI)
qed

text \<open>
  C9, as stated, fails on a tool-requesting response whose first block is the request
  itself: with the tools offered and no tool manager the one call is made and no tool is
  invoked, but no text is returned; the extraction ends with the attribute error.
\<close>

theorem no_tool_manager_request_first_counterexample:
  "stop_reason tool_use_response = ''tool_use'' \<and>
   generate_response mock_generator ''What is MCP?'' None (Some search_tools)
     None None (fresh [tool_use_response, final_response]) =
   (Inl AttributeError,
    \<lparr>ext = [final_response],
     api_calls = [initial_params mock_generator ''What is MCP?'' None (Some search_tools)],
     api_responses = [tool_use_response], tool_calls = []\<rparr>)"
  by (simp add: run_defs example_defs)

text \<open>
  C4, as the code has it: a query with no tools (the argument is \<open>None\<close> or the empty
  list), whose response does not request tools or which comes without a tool manager,
  sends one request, without tool schemas and without a tool choice. The result is the
  extraction \<open>content[0].text\<close> on that one response, and the answer is the text of its
  first block when that block is a text block.
\<close>

theorem no_tools_single_call:
  assumes "\<not> truthy tls"
      and "client self w (initial_params self query hist tls) = (Inr r, w')"
      and "tool_manager = None \<or> stop_reason r \<noteq> ''tool_use''"
  shows "generate_response self query hist tls tool_manager max_rounds (fresh w) =
           (first_text r,
            \<lparr>ext = w', api_calls = [initial_params self query hist tls],
             api_responses = [r], tool_calls = []\<rparr>) \<and>
         tools (initial_params self query hist tls) = None \<and>
         tool_choice (initial_params self query hist tls) = None \<and>
         (\<forall>t bs. content r = TextBlock t # bs \<longrightarrow>
            generate_response self query hist tls tool_manager max_rounds (fresh w) =
              (Inr t,
               \<lparr>ext = w', api_calls = [initial_params self query hist tls],
                api_responses = [r], tool_calls = []\<rparr>))"
  using assms messages_create_fresh[OF assms(2)]
  by (auto simp: generate_response_def Let_def first_text_TextBlock initial_params_def
        base_params_def split: option.splits)

theorem no_tools_single_call_witness:
  "generate_response mock_generator ''Search for Python basics'' None None None (Some 2)
     (fresh [final_response]) =
   (Inr ''Maximum tool rounds reached'',
    \<lparr>ext = [],
     api_calls = [initial_params mock_generator ''Search for Python basics'' None None],
     api_responses = [final_response], tool_calls = []\<rparr>) \<and>
   generate_response mock_generator ''Search for Python basics'' None (Some [])
     (Some mock_tool_manager) (Some 2) (fresh [final_response]) =
   (Inr ''Maximum tool rounds reached'',
    \<lparr>ext = [],
     api_calls = [initial_params mock_generator ''Search for Python basics'' None (Some [])],
     api_responses = [final_response], tool_calls = []\<rparr>) \<and>
   tools (initial_params mock_generator ''Search for Python basics'' None None) = None \<and>
   tool_choice (initial_params mock_generator ''Search for Python basics'' None None) = None"
proof -
  have c: "client mock_generator [final_response]
             (initial_params mock_generator ''Search for Python basics'' None tls) =
           (Inr final_response, [])" for tls
    by (simp add: mock_generator_def scripted_client_def)
  have t: "content final_response = [TextBlock ''Maximum tool rounds reached'']"
    by (simp add: final_response_def)
  have u: "\<not> truthy (None :: tool_def list option)" by simp
  have v: "\<not> truthy (Some ([] :: tool_def list))" by simp
  have d: "(None :: response list tool_manager option) = None \<or>
           stop_reason final_response \<noteq> ''tool_use''" by simp
  have e: "Some mock_tool_manager = None \<or> stop_reason final_response \<noteq> ''tool_use''"
    by (simp add: final_response_def)
  note th1 = no_tools_single_call[OF u c d, of "Some 2"]
  note th2 = no_tools_single_call[OF v c e, of "Some 2"]
  from th1[THEN conjunct2, THEN conjunct2, THEN conjunct2] t
  have a: "generate_response mock_generator ''Search for Python basics'' None None None
             (Some 2) (fresh [final_response]) =
           (Inr ''Maximum tool rounds reached'',
            \<lparr>ext = [],
             api_calls = [initial_params mock_generator ''Search for Python basics'' None None],
             api_responses = [final_response], tool_calls = []\<rparr>)"
    by blast
  from th2[THEN conjunct2, THEN conjunct2, THEN conjunct2] t
  have b: "generate_response mock_generator ''Search for Python basics'' None (Some [])
             (Some mock_tool_manager) (Some 2) (fresh [final_response]) =
           (Inr ''Maximum tool rounds reached'',
            \<lparr>ext = [],
             api_calls =
               [initial_params mock_generator ''Search for Python basics'' None (Some [])],
             api_responses = [final_response], tool_calls = []\<rparr>)"
    by blast
  from a b th1[THEN conjunct2, THEN conjunct1]
    th1[THEN conjunct2, THEN conjunct2, THEN conjunct1]
  show ?thesis by (intro conjI)
qed

text \<open>
  C4, as stated, fails when a tool manager is given and the response to the tool-less
  request has the stop reason \<open>tool_use\<close>: the guard of \<open>generate_response\<close> looks at the
  stop reason and the tool manager, not at the tools. A round follows: a tool is invoked,
  a second call is made, and the answer is the text of the second response.
\<close>

theorem no_tools_with_manager_counterexample:
  "map tools (api_calls (snd (generate_response mock_generator ''Search for Python basics''
      None None (Some mock_tool_manager) (Some 2)
      (fresh [tool_use_response, final_response])))) = [None, Some []] \<and>
   length (tool_calls (snd (generate_response mock_generator ''Search for Python basics''
      None None (Some mock_tool_manager) (Some 2)
      (fresh [tool_use_response, final_response])))) = 1 \<and>
   fst (generate_response mock_generator ''Search for Python basics''
      None None (Some mock_tool_manager) (Some 2)
      (fresh [tool_use_response, final_response])) = Inr ''Maximum tool rounds reached''"
  by (simp add: run_defs example_defs)

section \<open>One round of tool dispatch\<close>

lemma round_results_contents:
  assumes "map called_name new = map block_name (requests bs)"
  shows "map result_content (round_results bs new) =
         map (\<lambda>c. case call_outcome c of Returned t \<Rightarrow> t
                   | Raised e \<Rightarrow> ''Tool execution error: '' @ e) new"
proof -
  have "length rq = length new \<Longrightarrow>
        map result_content
          (map2 (\<lambda>b c. ToolResult (block_id b) (result_text (call_outcome c))) rq new) =
        map (\<lambda>c. case call_outcome c of Returned t \<Rightarrow> t
                  | Raised e \<Rightarrow> ''Tool execution error: '' @ e) new"
    for rq :: "content_block list"
    by (induction rq new rule: list_induct2) (auto split: outcome.splits)
  moreover from assms have "length (requests bs) = length new"
    by (metis length_map)
  ultimately show ?thesis
    by (simp add: round_results_def)
qed

text \<open>
  C3: in a round, every tool-invocation request of the response is dispatched, in order
  and with its name and input, whatever the outcome of the requests before it. The
  results list has one entry per request, with the call id of its request, and its
  content is the text the tool returned or, when the tool raised,
  \<open>"Tool execution error: <message>"\<close>. That list is the content of the user message
  appended after the assistant message, and the round goes on to its call of the endpoint.
\<close>

theorem tool_failures_become_results:
  assumes "execute_single_round self msgs sys tls tm resp s = (out, s')"
  shows "\<exists>new results req.
           tool_calls s' = tool_calls s @ new \<and>
           map called_name new = map block_name (requests (content resp)) \<and>
           map called_input new = map block_input (requests (content resp)) \<and>
           map tool_use_id results = map block_id (requests (content resp)) \<and>
           map result_content results =
             map (\<lambda>c. case call_outcome c of Returned t \<Rightarrow> t
                       | Raised e \<Rightarrow> ''Tool execution error: '' @ e) new \<and>
           api_calls s' = api_calls s @ [req] \<and>
           messages req =
             msgs @ Message ''assistant'' (Blocks (content resp)) #
               (if requests (content resp) = [] then []
                else [Message ''user'' (Results results)])"
proof -
  from execute_single_round_log[OF assms] obtain new where
    tc: "tool_calls s' = tool_calls s @ new" and
    nm: "map called_name new = map block_name (requests (content resp))" and
    inp: "map called_input new = map block_input (requests (content resp))" and
    ac: "api_calls s' = api_calls s @
           [round_request self
              (round_messages msgs (content resp) (round_results (content resp) new)) sys tls]"
    by blast
  let ?results = "round_results (content resp) new"
  let ?req = "round_request self (round_messages msgs (content resp) ?results) sys tls"
  have ids: "map tool_use_id ?results = map block_id (requests (content resp))"
    by (rule round_results_ids[OF nm])
  have rc: "map result_content ?results =
             map (\<lambda>c. case call_outcome c of Returned t \<Rightarrow> t
                       | Raised e \<Rightarrow> ''Tool execution error: '' @ e) new"
    by (rule round_results_contents[OF nm])
  from ids have "(?results = []) = (requests (content resp) = [])"
    by (metis map_is_Nil_conv)
  then have "messages ?req =
             msgs @ Message ''assistant'' (Blocks (content resp)) #
               (if requests (content resp) = [] then []
                else [Message ''user'' (Results ?results)])"
    by (simp add: round_request_def round_messages_def)
  with tc nm inp ids rc ac show ?thesis by blast
qed

theorem tool_failures_become_results_witness:
  "execute_single_round mock_generator [Message ''user'' (Plain ''Tell me about MCP'')]
     ''You are an AI assistant'' search_tools failing_tool_manager two_tool_response
     (fresh [final_response]) =
   (Inr ([Message ''user'' (Plain ''Tell me about MCP''),
          Message ''assistant'' (Blocks [search_request, outline_request]),
          Message ''user'' (Results
            [ToolResult ''t2'' ''Tool execution error: Search service unavailable'',
             ToolResult ''t1'' ''Course outline: Lesson 1, 2, 3''])],
         final_response),
    \<lparr>ext = [],
     api_calls =
       [round_request mock_generator
          [Message ''user'' (Plain ''Tell me about MCP''),
           Message ''assistant'' (Blocks [search_request, outline_request]),
           Message ''user'' (Results
             [ToolResult ''t2'' ''Tool execution error: Search service unavailable'',
              ToolResult ''t1'' ''Course outline: Lesson 1, 2, 3''])]
          ''You are an AI assistant'' search_tools],
     api_responses = [final_response],
     tool_calls =
       [\<lparr>called_name = ''search_course_content'', called_input = [(''query'', ''advanced'')],
         call_outcome = Raised ''Search service unavailable''\<rparr>,
        \<lparr>called_name = ''get_course_outline'', called_input = [(''course_title'', ''MCP'')],
         call_outcome = Returned ''Course outline: Lesson 1, 2, 3''\<rparr>]\<rparr>)"
  (is "?run = (?out, ?s')")
proof -
  have run: "?run = (?out, ?s')"
    by (simp add: execute_single_round_def execute_tool_def messages_create_def
          base_params_def round_request_def fresh_def Let_def
          example_defs)
  from tool_failures_become_results[OF run] run show ?thesis by simp
qed

section \<open>The number of endpoint calls\<close>

lemma generate_response_fresh:
  assumes run: "generate_response self query hist tls tmo mr (fresh w) = (out, s')"
  obtains cs rs where
    "api_calls s' = initial_params self query hist tls # cs"
    "api_responses s' = rs"
    "\<forall>c\<in>set cs. tools c = Some (case tls of None \<Rightarrow> [] | Some ts \<Rightarrow> ts) \<and>
                 tool_choice c = Some ''auto''"
    "length cs \<le> nat (rounds_limit mr)"
    "tmo = None \<longrightarrow> cs = []"
    "\<forall>r\<in>set (butlast rs). stop_reason r = ''tool_use''"
    "api_failed out \<longrightarrow> length cs = length rs"
    "\<not> api_failed out \<longrightarrow>
        Suc (length cs) = length rs \<and> out = first_text (last rs) \<and>
        (tmo \<noteq> None \<and> length cs < nat (rounds_limit mr) \<longrightarrow>
           stop_reason (last rs) \<noteq> ''tool_use'')"
    "\<forall>i<length cs. \<exists>results.
        map tool_use_id results = map block_id (requests (content (rs ! i))) \<and>
        messages (cs ! i) =
          round_messages (messages ((initial_params self query hist tls # cs) ! i))
            (content (rs ! i)) results"
proof -
  from generate_response_trace[OF run] obtain cs rs tcs where
     "api_calls s' = api_calls (fresh w) @ initial_params self query hist tls # cs \<and>
     api_responses s' = api_responses (fresh w) @ rs \<and>
     tool_calls s' = tool_calls (fresh w) @ tcs \<and>
     (\<forall>c\<in>set cs. tools c = Some (case tls of None \<Rightarrow> [] | Some ts \<Rightarrow> ts) \<and>
                  tool_choice c = Some ''auto'') \<and>
     length cs \<le> nat (rounds_limit mr) \<and>
     (tmo = None \<longrightarrow> cs = [] \<and> tcs = []) \<and>
     (\<forall>r\<in>set (butlast rs). stop_reason r = ''tool_use'') \<and>
     (api_failed out \<longrightarrow> length cs = length rs) \<and>
     (\<not> api_failed out \<longrightarrow>
        Suc (length cs) = length rs \<and> out = first_text (last rs) \<and>
        (tmo \<noteq> None \<and> length cs < nat (rounds_limit mr) \<longrightarrow>
           stop_reason (last rs) \<noteq> ''tool_use'')) \<and>
     (\<forall>i<length cs. \<exists>results.
        map tool_use_id results = map block_id (requests (content (rs ! i))) \<and>
        messages (cs ! i) =
          round_messages (messages ((initial_params self query hist tls # cs) ! i))
            (content (rs ! i)) results)"
    by blast
  then show ?thesis
    by (intro that[of cs rs]) (simp_all add: fresh_def)
qed

lemma butlast_nth_mem: "i < length xs - 1 \<Longrightarrow> xs ! i \<in> set (butlast xs)"
  by (metis length_butlast nth_butlast nth_mem)

text \<open>
  C2: a query with a tool manager, every endpoint call of which returned. The round
  limit \<open>R\<close> is the caller's \<open>max_rounds\<close>, or 2 when the caller gives none. If every
  response requested tools, exactly \<open>R + 1\<close> calls were made. If the model stops after
  \<open>k < R\<close> rounds, that is, each of its first \<open>k\<close> responses requested tools and its next
  one does not, exactly \<open>k + 1\<close> calls were made; the hypotheses speak of the responses
  as far as they exist, so that the \<open>(k+1)\<close>-th call being made is part of the
  conclusion.
\<close>

theorem model_call_count:
  assumes run: "generate_response self query hist tls (Some tm) max_rounds (fresh w) = (out, s')"
      and lim: "max_rounds = Some (int R) \<or> (max_rounds = None \<and> R = 2)"
      and ok: "\<not> api_failed out"
  shows "((\<forall>r\<in>set (api_responses s'). stop_reason r = ''tool_use'') \<longrightarrow>
            length (api_calls s') = R + 1) \<and>
         (\<forall>k<R.
              (\<forall>i<k. i < length (api_responses s') \<longrightarrow>
                  stop_reason (api_responses s' ! i) = ''tool_use'') \<and>
              (k < length (api_responses s') \<longrightarrow>
                  stop_reason (api_responses s' ! k) \<noteq> ''tool_use'') \<longrightarrow>
              length (api_calls s') = k + 1) \<and>
         length (api_responses s') = length (api_calls s')"
proof -
  from lim have R: "rounds_limit max_rounds = int R"
    by (auto simp: rounds_limit_def)
  from run obtain cs rs where
    ac: "api_calls s' = initial_params self query hist tls # cs" and
    ar: "api_responses s' = rs" and
    le: "length cs \<le> nat (rounds_limit max_rounds)" and
    bl: "\<forall>r\<in>set (butlast rs). stop_reason r = ''tool_use''" and
    nf: "\<not> api_failed out \<longrightarrow>
           Suc (length cs) = length rs \<and> out = first_text (last rs) \<and>
           (Some tm \<noteq> None \<and> length cs < nat (rounds_limit max_rounds) \<longrightarrow>
              stop_reason (last rs) \<noteq> ''tool_use'')"
    by (rule generate_response_fresh)
  from le R have le: "length cs \<le> R" by simp
  from nf ok R have len: "Suc (length cs) = length rs"
    and stop: "length cs < R \<Longrightarrow> stop_reason (last rs) \<noteq> ''tool_use''"
    by auto
  from len have ne: "rs \<noteq> []" by auto
  from len have "length rs - 1 = length cs" by simp
  with ne have last: "last rs = rs ! length cs"
    by (simp add: last_conv_nth)
  have a: "length (api_calls s') = R + 1"
    if "\<forall>r\<in>set (api_responses s'). stop_reason r = ''tool_use''"
  proof -
    from that ar ne have "stop_reason (last rs) = ''tool_use''" by simp
    with stop have "\<not> length cs < R" by blast
    with le ac show ?thesis by simp
  qed
  have b: "length (api_calls s') = k + 1"
    if k: "k < R"
      and before: "\<forall>i<k. i < length (api_responses s') \<longrightarrow>
                     stop_reason (api_responses s' ! i) = ''tool_use''"
      and at: "k < length (api_responses s') \<longrightarrow>
                 stop_reason (api_responses s' ! k) \<noteq> ''tool_use''"
    for k
  proof -
    have "\<not> length cs < k"
    proof
      assume l: "length cs < k"
      with before ar len last have "stop_reason (last rs) = ''tool_use''" by simp
      moreover from l k have "length cs < R" by simp
      ultimately show False using stop by blast
    qed
    moreover have "\<not> k < length cs"
    proof
      assume l: "k < length cs"
      with len have "rs ! k \<in> set (butlast rs)"
        by (intro butlast_nth_mem) simp
      with bl have "stop_reason (rs ! k) = ''tool_use''" by blast
      with at ar len l show False by simp
    qed
    ultimately have "length cs = k" by simp
    with ac show ?thesis by simp
  qed
  show ?thesis
  proof (intro conjI allI impI)
    show "length (api_calls s') = R + 1"
      if "\<forall>r\<in>set (api_responses s'). stop_reason r = ''tool_use''"
      using that by (rule a)
    show "length (api_calls s') = k + 1"
      if "k < R"
        and "(\<forall>i<k. i < length (api_responses s') \<longrightarrow>
                stop_reason (api_responses s' ! i) = ''tool_use'') \<and>
             (k < length (api_responses s') \<longrightarrow>
                stop_reason (api_responses s' ! k) \<noteq> ''tool_use'')"
      for k
      using that by (intro b) simp_all
    show "length (api_responses s') = length (api_calls s')"
      using ac ar len by simp
  qed
qed

theorem model_call_count_witness:
  "length (api_calls (snd (generate_response mock_generator
      ''Keep searching for more information'' None (Some search_tools)
      (Some mock_tool_manager) None
      (fresh [tool_use_response, tool_use_response, tool_use_response,
              tool_use_response, tool_use_response])))) = 3 \<and>
   length (api_calls (snd (generate_response mock_generator
      ''Keep searching for more information'' None (Some search_tools)
      (Some mock_tool_manager) (Some 1)
      (fresh [tool_use_response, tool_use_response, tool_use_response,
              tool_use_response, tool_use_response])))) = 2 \<and>
   length (api_calls (snd (generate_response mock_generator
      ''Keep searching for more information'' None (Some search_tools)
      (Some mock_tool_manager) (Some 3)
      (fresh [tool_use_response, tool_use_response, tool_use_response,
              tool_use_response, tool_use_response])))) = 4 \<and>
   length (api_calls (snd (generate_response mock_generator
      ''What is Python?'' None (Some search_tools)
      (Some mock_tool_manager) (Some 3)
      (fresh [tool_use_response, final_response])))) = 2"
proof -
  let ?script = "[tool_use_response, tool_use_response, tool_use_response,
                  tool_use_response, tool_use_response]"
  let ?X = "\<lambda>max_rounds. generate_response mock_generator
      ''Keep searching for more information'' None (Some search_tools)
      (Some mock_tool_manager) max_rounds (fresh ?script)"
  let ?Y = "generate_response mock_generator
      ''What is Python?'' None (Some search_tools)
      (Some mock_tool_manager) (Some 3)
      (fresh [tool_use_response, final_response])"
  have x: "?X m = (fst (?X m), snd (?X m))" for m by simp
  have y: "?Y = (fst ?Y, snd ?Y)" by simp
  have l0: "(None :: int option) = Some (int 2) \<or> ((None :: int option) = None \<and> (2::nat) = 2)"
    by simp
  have l1: "Some 1 = Some (int 1) \<or> (Some (1::int) = None \<and> (1::nat) = 2)" by simp
  have l3: "Some 3 = Some (int 3) \<or> (Some (3::int) = None \<and> (3::nat) = 2)" by simp
  have ok0: "\<not> api_failed (fst (?X None))"
    and ok1: "\<not> api_failed (fst (?X (Some 1)))"
    and ok3: "\<not> api_failed (fst (?X (Some 3)))"
    and oky: "\<not> api_failed (fst ?Y)"
    by (simp_all add: run_defs example_defs)
  have all0: "\<forall>r\<in>set (api_responses (snd (?X None))). stop_reason r = ''tool_use''"
    and all1: "\<forall>r\<in>set (api_responses (snd (?X (Some 1)))). stop_reason r = ''tool_use''"
    and all3: "\<forall>r\<in>set (api_responses (snd (?X (Some 3)))). stop_reason r = ''tool_use''"
    by (simp_all add: run_defs example_defs)
  have befy: "\<forall>i<1. i < length (api_responses (snd ?Y)) \<longrightarrow>
                stop_reason (api_responses (snd ?Y) ! i) = ''tool_use''"
    by (simp add: run_defs example_defs)
  have aty: "1 < length (api_responses (snd ?Y)) \<longrightarrow>
               stop_reason (api_responses (snd ?Y) ! 1) \<noteq> ''tool_use''"
    by (simp add: run_defs example_defs)
  from model_call_count[OF x l0 ok0, THEN conjunct1] all0
  have a: "length (api_calls (snd (?X None))) = 2 + 1" by (rule mp)
  from model_call_count[OF x l1 ok1, THEN conjunct1] all1
  have b: "length (api_calls (snd (?X (Some 1)))) = 1 + 1" by (rule mp)
  from model_call_count[OF x l3 ok3, THEN conjunct1] all3
  have c: "length (api_calls (snd (?X (Some 3)))) = 3 + 1" by (rule mp)
  have "(1::nat) < 3" by simp
  with model_call_count[OF y l3 oky, THEN conjunct2, THEN conjunct1] befy aty
  have d: "length (api_calls (snd ?Y)) = 1 + 1" by blast
  from a b c d show ?thesis by simp
qed

section \<open>The answer\<close>

lemma first_text_take:
  "take 1 (content r) = take 1 (content r') \<Longrightarrow> first_text r = first_text r'"
  by (cases "content r"; cases "content r'") (auto simp: first_text_def)

lemma first_text_Inr_iff: "first_text r = Inr t \<longleftrightarrow> (\<exists>bs. content r = TextBlock t # bs)"
  by (auto simp: first_text_def split: list.splits content_block.splits)

lemma first_text_ToolUseBlock:
  "content r = ToolUseBlock i n inp # bs \<Longrightarrow> first_text r = Inl AttributeError"
  by (simp add: first_text_def)

text \<open>
  C10: when no endpoint call failed, the result of \<open>generate_response\<close> is the
  extraction \<open>content[0].text\<close> on the last response of the endpoint. It is an answer
  \<open>t\<close> exactly when the first block of that response is a text block with text \<open>t\<close>;
  a first block that is a tool-invocation request gives the attribute error and no
  answer; and a response with the same first block gives the same result, whatever its
  later blocks.
\<close>

theorem answer_is_first_block_text:
  assumes run: "generate_response self query hist tls tmo mr (fresh w) = (out, s')"
      and ok: "\<not> api_failed out"
  shows "api_responses s' \<noteq> [] \<and>
         out = first_text (last (api_responses s')) \<and>
         (\<forall>t. out = Inr t \<longleftrightarrow> (\<exists>bs. content (last (api_responses s')) = TextBlock t # bs)) \<and>
         (\<forall>i n inp bs. content (last (api_responses s')) = ToolUseBlock i n inp # bs \<longrightarrow>
            out = Inl AttributeError) \<and>
         (\<forall>r. take 1 (content r) = take 1 (content (last (api_responses s'))) \<longrightarrow>
            first_text r = out)"
proof -
  from run obtain cs rs where
    ac: "api_calls s' = initial_params self query hist tls # cs" and
    ar: "api_responses s' = rs" and
    nf: "\<not> api_failed out \<longrightarrow>
           Suc (length cs) = length rs \<and> out = first_text (last rs) \<and>
           (tmo \<noteq> None \<and> length cs < nat (rounds_limit mr) \<longrightarrow>
              stop_reason (last rs) \<noteq> ''tool_use'')"
    by (rule generate_response_fresh)
  from nf ok have len: "Suc (length cs) = length rs" and out: "out = first_text (last rs)"
    by auto
  from len have ne: "rs \<noteq> []" by auto
  have a: "out = Inr t \<longleftrightarrow> (\<exists>bs. content (last rs) = TextBlock t # bs)" for t
    unfolding out by (rule first_text_Inr_iff)
  have b: "out = Inl AttributeError" if "content (last rs) = ToolUseBlock i n inp # bs"
    for i n inp bs
    unfolding out using that by (rule first_text_ToolUseBlock)
  have c: "first_text r = out" if "take 1 (content r) = take 1 (content (last rs))" for r
    unfolding out using that by (rule first_text_take)
  show ?thesis
    unfolding ar
  proof (intro conjI allI impI)
    show "rs \<noteq> []" by (rule ne)
    show "out = first_text (last rs)" by (rule out)
    show "out = Inr t \<longleftrightarrow> (\<exists>bs. content (last rs) = TextBlock t # bs)" for t by (rule a)
    show "out = Inl AttributeError" if "content (last rs) = ToolUseBlock i n inp # bs"
      for i n inp bs using that by (rule b)
    show "first_text r = out" if "take 1 (content r) = take 1 (content (last rs))" for r
      using that by (rule c)
  qed
qed




theorem answer_is_first_block_text_witness:
  "fst (generate_response mock_generator ''What is MCP?'' None (Some search_tools)
     (Some mock_tool_manager) (Some 1)
     (fresh [tool_use_response, tool_use_response, final_response])) = Inl AttributeError \<and>
   fst (generate_response mock_generator ''What is MCP?'' None (Some search_tools)
     (Some mock_tool_manager) (Some 1)
     (fresh [tool_use_response, searching_response, final_response])) =
     Inr ''Let me search the course.''"
proof -
  let ?X = "generate_response mock_generator ''What is MCP?'' None (Some search_tools)
     (Some mock_tool_manager) (Some 1)
     (fresh [tool_use_response, tool_use_response, final_response])"
  let ?Y = "generate_response mock_generator ''What is MCP?'' None (Some search_tools)
     (Some mock_tool_manager) (Some 1)
     (fresh [tool_use_response, searching_response, final_response])"
  have x: "?X = (fst ?X, snd ?X)" and y: "?Y = (fst ?Y, snd ?Y)"
    by simp_all
  have okx: "\<not> api_failed (fst ?X)" and oky: "\<not> api_failed (fst ?Y)"
    by (simp_all add: run_defs example_defs)
  have "fst ?X = first_text (last (api_responses (snd ?X)))"
    by (rule answer_is_first_block_text[OF x okx, THEN conjunct2, THEN conjunct1])
  also have "\<dots> = Inl AttributeError"
    by (simp add: run_defs example_defs)
  finally have a: "fst ?X = Inl AttributeError" .
  have "fst ?Y = first_text (last (api_responses (snd ?Y)))"
    by (rule answer_is_first_block_text[OF y oky, THEN conjunct2, THEN conjunct1])
  also have "\<dots> = Inr ''Let me search the course.''"
    by (simp add: run_defs example_defs)
  finally have b: "fst ?Y = Inr ''Let me search the course.''" .
  from a b show ?thesis by (rule conjI)
qed

section \<open>The call at the round cap\<close>

text \<open>
  C1, as the code has it: with tools given, a tool manager and a round limit \<open>R\<close>, if
  each of the first \<open>R\<close> responses requested tools (and no endpoint call failed), then
  exactly \<open>R + 1\<close> calls are made, and the last of them still carries the tool schemas
  and the automatic tool choice: \<open>_execute_single_round\<close> sends them with every
  follow-up call. No call follows it, whatever its stop reason, and the result is the
  extraction \<open>content[0].text\<close> on its response: the text of the first block when
  that block is a text block.
\<close>

theorem final_call_keeps_tools:
  assumes run: "generate_response self query hist (Some tls) (Some tm) mr (fresh w) = (out, s')"
      and tls: "tls \<noteq> []"
      and R: "rounds_limit mr = int R"
      and ok: "\<not> api_failed out"
      and cap: "\<forall>i<R. i < length (api_responses s') \<longrightarrow>
                  stop_reason (api_responses s' ! i) = ''tool_use''"
  shows "length (api_calls s') = R + 1 \<and>
         length (api_responses s') = R + 1 \<and>
         tools (api_calls s' ! R) = Some tls \<and>
         tool_choice (api_calls s' ! R) = Some ''auto'' \<and>
         out = first_text (api_responses s' ! R) \<and>
         (\<forall>t bs. content (api_responses s' ! R) = TextBlock t # bs \<longrightarrow> out = Inr t)"
proof -
  let ?p = "initial_params self query hist (Some tls)"
  from run obtain cs rs where
    ac: "api_calls s' = ?p # cs" and
    ar: "api_responses s' = rs" and
    tl: "\<forall>c\<in>set cs. tools c = Some (case Some tls of None \<Rightarrow> [] | Some ts \<Rightarrow> ts) \<and>
                 tool_choice c = Some ''auto''" and
    le: "length cs \<le> nat (rounds_limit mr)" and
    nf: "\<not> api_failed out \<longrightarrow>
           Suc (length cs) = length rs \<and> out = first_text (last rs) \<and>
           (Some tm \<noteq> None \<and> length cs < nat (rounds_limit mr) \<longrightarrow>
              stop_reason (last rs) \<noteq> ''tool_use'')"
    by (rule generate_response_fresh)
  from nf ok have len: "Suc (length cs) = length rs" and out: "out = first_text (last rs)"
    and stop: "length cs < nat (rounds_limit mr) \<Longrightarrow> stop_reason (last rs) \<noteq> ''tool_use''"
    by auto
  from len have ne: "rs \<noteq> []" by auto
  from len have "length rs - 1 = length cs" by simp
  with ne have last: "last rs = rs ! length cs"
    by (simp add: last_conv_nth)
  have "\<not> length cs < R"
  proof
    assume l: "length cs < R"
    with cap ar len last have "stop_reason (last rs) = ''tool_use''" by simp
    moreover from l R have "length cs < nat (rounds_limit mr)" by simp
    ultimately show False using stop by blast
  qed
  with le R have n: "length cs = R" by simp
  have p: "tools ?p = Some tls" "tool_choice ?p = Some ''auto''"
    using tls by (simp_all add: initial_params_def Let_def)
  have c: "tools ((?p # cs) ! R) = Some tls \<and> tool_choice ((?p # cs) ! R) = Some ''auto''"
  proof (cases R)
    case 0
    with p show ?thesis by simp
  next
    case (Suc j)
    with n have "cs ! j \<in> set cs" by simp
    with tl Suc show ?thesis by simp
  qed
  from out last n have o: "out = first_text (rs ! R)" by simp
  show ?thesis
    unfolding ac ar
  proof (intro conjI allI impI)
    show "length (?p # cs) = R + 1" using n by simp
    show "length rs = R + 1" using n len by simp
    show "tools ((?p # cs) ! R) = Some tls" using c by simp
    show "tool_choice ((?p # cs) ! R) = Some ''auto''" using c by simp
    show "out = first_text (rs ! R)" by (rule o)
    show "out = Inr t" if "content (rs ! R) = TextBlock t # bs" for t bs
      unfolding o using that by (rule first_text_TextBlock)
  qed
qed

text \<open>
  C1, as stated, fails on the run of \<open>test_maximum_rounds_enforced\<close>: the model requests
  tools twice with \<open>R = 2\<close>, and the third request offers the tools and the automatic
  tool choice like the two before it.
\<close>

theorem forced_call_withdraws_tools_counterexample:
  "map stop_reason (api_responses (snd (generate_response mock_generator
      ''Keep searching for more information'' None (Some search_tools)
      (Some mock_tool_manager) (Some 2)
      (fresh [tool_use_response, tool_use_response, final_response])))) =
     [''tool_use'', ''tool_use'', ''end_turn''] \<and>
   map tools (api_calls (snd (generate_response mock_generator
      ''Keep searching for more information'' None (Some search_tools)
      (Some mock_tool_manager) (Some 2)
      (fresh [tool_use_response, tool_use_response, final_response])))) =
     [Some search_tools, Some search_tools, Some search_tools] \<and>
   map tool_choice (api_calls (snd (generate_response mock_generator
      ''Keep searching for more information'' None (Some search_tools)
      (Some mock_tool_manager) (Some 2)
      (fresh [tool_use_response, tool_use_response, final_response])))) =
     [Some ''auto'', Some ''auto'', Some ''auto'']"
  by (simp add: run_defs example_defs)

theorem final_call_keeps_tools_witness:
  "tools (api_calls (snd (generate_response mock_generator
      ''Keep searching for more information'' None (Some search_tools)
      (Some mock_tool_manager) (Some 2)
      (fresh [tool_use_response, tool_use_response, final_response]))) ! 2) =
     Some search_tools \<and>
   fst (generate_response mock_generator
      ''Keep searching for more information'' None (Some search_tools)
      (Some mock_tool_manager) (Some 2)
      (fresh [tool_use_response, tool_use_response, final_response])) =
     Inr ''Maximum tool rounds reached''"
proof -
  let ?X = "generate_response mock_generator
      ''Keep searching for more information'' None (Some search_tools)
      (Some mock_tool_manager) (Some 2)
      (fresh [tool_use_response, tool_use_response, final_response])"
  have x: "?X = (fst ?X, snd ?X)" by simp
  have t: "search_tools \<noteq> []" by (simp add: search_tools_def)
  have r: "rounds_limit (Some 2) = int 2" by (simp add: rounds_limit_def)
  have ok: "\<not> api_failed (fst ?X)" by (simp add: run_defs example_defs)
  have cap: "\<forall>i<2. i < length (api_responses (snd ?X)) \<longrightarrow>
               stop_reason (api_responses (snd ?X) ! i) = ''tool_use''"
    by (simp add: run_defs example_defs less_Suc_eq numeral_2_eq_2)
  note th = final_call_keeps_tools[OF x t r ok cap]
  have a: "tools (api_calls (snd ?X) ! 2) = Some search_tools"
    by (rule th[THEN conjunct2, THEN conjunct2, THEN conjunct1])
  have "fst ?X = first_text (api_responses (snd ?X) ! 2)"
    by (rule th[THEN conjunct2, THEN conjunct2, THEN conjunct2, THEN conjunct2, THEN conjunct1])
  also have "\<dots> = Inr ''Maximum tool rounds reached''"
    by (simp add: run_defs example_defs)
  finally have b: "fst ?X = Inr ''Maximum tool rounds reached''" .
  from a b show ?thesis by (rule conjI)
qed

section \<open>The growth of the message buffer\<close>

lemma prefix_chain:
  assumes step: "\<And>k. Suc k < n \<Longrightarrow> prefix (f k) (f (Suc k))"
      and "i \<le> j" and "j < n"
  shows "prefix (f i :: 'a list) (f j)"
  using assms(2,3)
proof (induction j rule: dec_induct)
  case base
  show ?case by simp
next
  case (step k)
  then have "prefix (f i) (f k)" by simp
  moreover from step.prems have "prefix (f k) (f (Suc k))" by (rule assms(1))
  ultimately show ?case by (rule prefix_order.trans)
qed

text \<open>
  C5: within one query the message list of an earlier endpoint call is a prefix of the
  message list of every later one. The first call sends the one user message of the
  query; each round sends the list of the call before it, extended by the assistant
  message with the content of that call's response and then, when that response carries
  a tool-invocation request, by one user message with one tool result per request.
\<close>

theorem message_buffer_append_only:
  assumes run: "generate_response self query hist tls tmo mr (fresh w) = (out, s')"
      and ij: "i \<le> j"
      and j: "j < length (api_calls s')"
  shows "prefix (messages (api_calls s' ! i)) (messages (api_calls s' ! j)) \<and>
         messages (api_calls s' ! 0) = [Message ''user'' (Plain query)] \<and>
         (Suc i < length (api_calls s') \<longrightarrow>
            (\<exists>results.
               map tool_use_id results =
                 map block_id (requests (content (api_responses s' ! i))) \<and>
               messages (api_calls s' ! Suc i) =
                 messages (api_calls s' ! i) @
                 Message ''assistant'' (Blocks (content (api_responses s' ! i))) #
                 (if requests (content (api_responses s' ! i)) = [] then []
                  else [Message ''user'' (Results results)])))"
proof -
  let ?p = "initial_params self query hist tls"
  from run obtain cs rs where
    ac: "api_calls s' = ?p # cs" and
    ar: "api_responses s' = rs" and
    tl: "\<forall>c\<in>set cs. tools c = Some (case tls of None \<Rightarrow> [] | Some ts \<Rightarrow> ts) \<and>
                 tool_choice c = Some ''auto''" and
    le: "length cs \<le> nat (rounds_limit mr)" and
    tm: "tmo = None \<longrightarrow> cs = []" and
    bl: "\<forall>r\<in>set (butlast rs). stop_reason r = ''tool_use''" and
    af: "api_failed out \<longrightarrow> length cs = length rs" and
    nf: "\<not> api_failed out \<longrightarrow>
           Suc (length cs) = length rs \<and> out = first_text (last rs) \<and>
           (tmo \<noteq> None \<and> length cs < nat (rounds_limit mr) \<longrightarrow>
              stop_reason (last rs) \<noteq> ''tool_use'')" and
    ch: "\<forall>i<length cs. \<exists>results.
           map tool_use_id results = map block_id (requests (content (rs ! i))) \<and>
           messages (cs ! i) =
             round_messages (messages ((?p # cs) ! i)) (content (rs ! i)) results"
    by (rule generate_response_fresh)
  have round: "\<exists>results.
           map tool_use_id results = map block_id (requests (content (rs ! k))) \<and>
           messages ((?p # cs) ! Suc k) =
             messages ((?p # cs) ! k) @ Message ''assistant'' (Blocks (content (rs ! k))) #
             (if requests (content (rs ! k)) = [] then []
              else [Message ''user'' (Results results)])"
    if "Suc k < length (?p # cs)" for k
  proof -
    from that have "k < length cs" by simp
    with ch obtain results where
      ids: "map tool_use_id results = map block_id (requests (content (rs ! k)))" and
      m: "messages (cs ! k) =
            round_messages (messages ((?p # cs) ! k)) (content (rs ! k)) results"
      by blast
    from ids have "(results = []) = (requests (content (rs ! k)) = [])"
      by (metis map_is_Nil_conv)
    with m have "messages ((?p # cs) ! Suc k) =
             messages ((?p # cs) ! k) @ Message ''assistant'' (Blocks (content (rs ! k))) #
             (if requests (content (rs ! k)) = [] then []
              else [Message ''user'' (Results results)])"
      by (simp add: round_messages_def)
    with ids show ?thesis by blast
  qed
  have step: "prefix (messages ((?p # cs) ! k)) (messages ((?p # cs) ! Suc k))"
    if "Suc k < length (?p # cs)" for k
    using round[OF that] by (auto simp: prefix_def)
  have pre: "prefix (messages ((?p # cs) ! i)) (messages ((?p # cs) ! j))"
    using step ij j[unfolded ac] by (rule prefix_chain)
  have first: "messages ((?p # cs) ! 0) = [Message ''user'' (Plain query)]"
    by (simp add: initial_params_def Let_def)
  show ?thesis
    unfolding ac ar
  proof (intro conjI impI)
    show "prefix (messages ((?p # cs) ! i)) (messages ((?p # cs) ! j))" by (rule pre)
    show "messages ((?p # cs) ! 0) = [Message ''user'' (Plain query)]" by (rule first)
    show "\<exists>results.
           map tool_use_id results = map block_id (requests (content (rs ! i))) \<and>
           messages ((?p # cs) ! Suc i) =
             messages ((?p # cs) ! i) @ Message ''assistant'' (Blocks (content (rs ! i))) #
             (if requests (content (rs ! i)) = [] then []
              else [Message ''user'' (Results results)])"
      if "Suc i < length (?p # cs)" using that by (rule round)
  qed
qed

theorem message_buffer_append_only_witness:
  "prefix
     (messages (api_calls (snd (generate_response mock_generator
        ''Tell me about Python course variables'' None (Some search_tools)
        (Some mock_tool_manager) (Some 2)
        (fresh [tool_use_response, tool_use_response, final_response]))) ! 0))
     (messages (api_calls (snd (generate_response mock_generator
        ''Tell me about Python course variables'' None (Some search_tools)
        (Some mock_tool_manager) (Some 2)
        (fresh [tool_use_response, tool_use_response, final_response]))) ! 2)) \<and>
   map (length \<circ> messages) (api_calls (snd (generate_response mock_generator
        ''Tell me about Python course variables'' None (Some search_tools)
        (Some mock_tool_manager) (Some 2)
        (fresh [tool_use_response, tool_use_response, final_response])))) = [1, 3, 5]"
proof -
  let ?X = "generate_response mock_generator
        ''Tell me about Python course variables'' None (Some search_tools)
        (Some mock_tool_manager) (Some 2)
        (fresh [tool_use_response, tool_use_response, final_response])"
  have x: "?X = (fst ?X, snd ?X)" by simp
  have ij: "(0::nat) \<le> 2" by simp
  have j: "2 < length (api_calls (snd ?X))"
    by (simp add: run_defs example_defs)
  have a: "prefix (messages (api_calls (snd ?X) ! 0)) (messages (api_calls (snd ?X) ! 2))"
    by (rule message_buffer_append_only[OF x ij j, THEN conjunct1])
  have b: "map (length \<circ> messages) (api_calls (snd ?X)) = [1, 3, 5]"
    by (simp add: run_defs example_defs)
  from a b show ?thesis by (rule conjI)
qed

section \<open>Results of the content-search tool\<close>

text \<open>
  C6: on a successful search (no failure, at least one passage) the result text is made
  of the passages formatted as \<open>[<course> - Lesson <n>] <passage text>\<close>, and the
  citations grow by exactly one per passage, in order and with no passage left out or
  merged with another: each has the label \<open><course> - Lesson <n>\<close> and the link of its
  lesson. Two passages of two courses give two citations.
\<close>

theorem search_success_formats_and_cites:
  assumes "\<not> truthy (search_error (search store query course_name lesson))"
      and "passages (search store query course_name lesson) = ps"
      and "ps \<noteq> []"
  shows "content_search_execute store sep query course_name lesson cites =
           (join_with sep (map format_passage ps), cites @ map (passage_citation store) ps) \<and>
         length (snd (content_search_execute store sep query course_name lesson cites)) =
           length cites + length ps \<and>
         (\<forall>p\<in>set ps.
            format_passage p =
              ''['' @ course_title p @ '' - Lesson '' @ str_nat (lesson_number p) @ ''] '' @
              passage_text p \<and>
            label (passage_citation store p) =
              course_title p @ '' - Lesson '' @ str_nat (lesson_number p) \<and>
            link (passage_citation store p) =
              lesson_link store (course_title p) (lesson_number p))"
  using assms
  by (simp add: content_search_execute_def Let_def format_passage_def passage_label_def
        passage_citation_def)

theorem search_success_formats_and_cites_witness:
  "content_search_execute two_course_store [CHR 0x0A] ''test query'' None None [] =
     (''[Course A - Lesson 1] Content 1'' @ [CHR 0x0A] @ ''[Course B - Lesson 2] Content 2'',
      [\<lparr>label = ''Course A - Lesson 1'', link = Some ''https://example.com/lesson1''\<rparr>,
       \<lparr>label = ''Course B - Lesson 2'', link = Some ''https://example.com/lesson2''\<rparr>])"
proof -
  let ?ps = "[\<lparr>passage_text = ''Content 1'', course_title = ''Course A'', lesson_number = 1\<rparr>,
              \<lparr>passage_text = ''Content 2'', course_title = ''Course B'', lesson_number = 2\<rparr>]"
  have e: "\<not> truthy (search_error (search two_course_store ''test query'' None None))"
    by (simp add: two_course_store_def)
  have p: "passages (search two_course_store ''test query'' None None) = ?ps"
    by (simp add: two_course_store_def)
  have n: "?ps \<noteq> []" by simp
  have "content_search_execute two_course_store [CHR 0x0A] ''test query'' None None [] =
          (join_with [CHR 0x0A] (map format_passage ?ps),
           [] @ map (passage_citation two_course_store) ?ps)"
    by (rule search_success_formats_and_cites[OF e p n, THEN conjunct1])
  then show ?thesis
    by (simp add: format_passage_def passage_label_def passage_citation_def
          two_course_store_def str_nat.simps)
qed

text \<open>
  C7, as the tests have it: \<open>execute\<close> returns a text in every case. A failure of the
  retrieval gives the failure's message as it is, with nothing put before it, and an
  empty result set gives the sentinel \<open>No relevant content found\<close>; the citations are
  left as they were.
\<close>

theorem search_failure_message_verbatim:
  "(\<forall>e. search_error (search store query course_name lesson) = Some e \<and> e \<noteq> [] \<longrightarrow>
        content_search_execute store sep query course_name lesson cites = (e, cites)) \<and>
   (\<not> truthy (search_error (search store query course_name lesson)) \<and>
    passages (search store query course_name lesson) = [] \<longrightarrow>
        content_search_execute store sep query course_name lesson cites =
          (''No relevant content found'', cites))"
  by (auto simp: content_search_execute_def Let_def)

theorem search_failure_message_verbatim_witness:
  "content_search_execute failing_store [] ''test query'' None None [] =
     (''Database connection failed'', []) \<and>
   content_search_execute empty_store [] ''test query'' None None [] =
     (''No relevant content found'', [])"
proof -
  note th = search_failure_message_verbatim
  have a: "search_error (search failing_store ''test query'' None None) =
             Some ''Database connection failed'' \<and> ''Database connection failed'' \<noteq> []"
    by (simp add: failing_store_def)
  have b: "\<not> truthy (search_error (search empty_store ''test query'' None None)) \<and>
           passages (search empty_store ''test query'' None None) = []"
    by (simp add: empty_store_def)
  from th[of failing_store "''test query''" None None "[]" "[]", THEN conjunct1] a
  have x: "content_search_execute failing_store [] ''test query'' None None [] =
             (''Database connection failed'', [])"
    by (elim allE impE) assumption+
  from th[of empty_store "''test query''" None None "[]" "[]", THEN conjunct2] b
  have y: "content_search_execute empty_store [] ''test query'' None None [] =
             (''No relevant content found'', [])"
    by (elim impE) assumption+
  from x y show ?thesis by (rule conjI)
qed

text \<open>
  C7, as stated, fails on the input of \<open>test_execute_with_search_error\<close>: the failure
  message \<open>Database connection failed\<close> is the result text, not
  \<open>Search error: Database connection failed\<close>.
\<close>

theorem search_error_prefix_counterexample:
  "fst (content_search_execute failing_store [] ''test query'' None None []) =
     ''Database connection failed'' \<and>
   fst (content_search_execute failing_store [] ''test query'' None None []) \<noteq>
     ''Search error: Database connection failed''"
  by (simp add: content_search_execute_def failing_store_def Let_def)

end
